theory Spec2Isabelle
  imports Main
begin

section \<open>Python strings\<close>

text \<open>
  A Python \<open>str\<close> is a sequence of Unicode code points, and \<open>len\<close>, the regular
  expressions and \<open>strip\<close> of the script all work on code points. A string is therefore
  a list of code points; \<open>S ''abc''\<close> writes an ASCII literal.
\<close>

type_synonym str = "nat list"

abbreviation S :: "string \<Rightarrow> str" where
  "S cs \<equiv> map of_char cs"

text \<open>\<open>str(n)\<close> for an integer: decimal digits, with a minus sign when negative.\<close>

function digits_nat :: "nat \<Rightarrow> str" where
  "digits_nat n = (if n < 10 then [48 + n] else digits_nat (n div 10) @ [48 + n mod 10])"
  by pat_completeness auto
termination
  by (relation "measure (\<lambda>n. n)") auto

definition str_int :: "int \<Rightarrow> str" where
  "str_int i = (if i < 0 then 45 # digits_nat (nat (- i)) else digits_nat (nat i))"

text \<open>An f-string field holding \<open>None\<close> or a string: \<open>str(None)\<close> is \<open>None\<close>.\<close>

definition fmt_opt :: "str option \<Rightarrow> str" where
  "fmt_opt v = (case v of None \<Rightarrow> S ''None'' | Some s \<Rightarrow> s)"

text \<open>A value written between single quotes (code point 39) in an f-string.\<close>

definition quoted :: "str \<Rightarrow> str" where
  "quoted s = 39 # s @ [39]"

text \<open>
  The character classes of the script's regular expressions. \<open>[a-zA-Z0-9 \.\-_#\(\)]\<close>
  lists ASCII characters only. \<open>\d\<close> on a \<open>str\<close> pattern matches every Unicode decimal
  digit (category Nd): these come in runs of ten consecutive code points with the values
  0 to 9, and \<open>Nd_zeros\<close> lists the code point of the zero of each run (Unicode 14, the
  table of the interpreter's \<open>unicodedata\<close>). \<open>\s\<close>, \<open>str.strip()\<close> and \<open>int()\<close>
  share one set of whitespace code points.
\<close>

definition allowed_char :: "nat \<Rightarrow> bool" where
  "allowed_char c \<longleftrightarrow>
     (97 \<le> c \<and> c \<le> 122) \<or> (65 \<le> c \<and> c \<le> 90) \<or> (48 \<le> c \<and> c \<le> 57) \<or>
     c = 32 \<or> c = 46 \<or> c = 45 \<or> c = 95 \<or> c = 35 \<or> c = 40 \<or> c = 41"

definition Nd_zeros :: "nat list" where
  "Nd_zeros = [48, 1632, 1776, 1984, 2406, 2534, 2662, 2790, 2918, 3046, 3174, 3302, 3430,
     3558, 3664, 3792, 3872, 4160, 4240, 6112, 6160, 6470, 6608, 6784, 6800, 6992, 7088,
     7232, 7248, 42528, 43216, 43264, 43472, 43504, 43600, 44016, 65296, 66720, 68912,
     69734, 69872, 69942, 70096, 70384, 70736, 70864, 71248, 71360, 71472, 71904, 72016,
     72784, 73040, 73120, 92768, 92864, 93008, 120782, 120792, 120802, 120812, 120822,
     123200, 123632, 125264, 130032]"

definition digit_value :: "nat \<Rightarrow> nat option" where
  "digit_value c = (case filter (\<lambda>z. z \<le> c \<and> c < z + 10) Nd_zeros of
                      [] \<Rightarrow> None | z # _ \<Rightarrow> Some (c - z))"

definition is_digit :: "nat \<Rightarrow> bool" where
  "is_digit c \<longleftrightarrow> digit_value c \<noteq> None"

definition is_space :: "nat \<Rightarrow> bool" where
  "is_space c \<longleftrightarrow> c \<in> set [9, 10, 11, 12, 13, 28, 29, 30, 31, 32, 133, 160, 5760,
     8192, 8193, 8194, 8195, 8196, 8197, 8198, 8199, 8200, 8201, 8202, 8232, 8233, 8239,
     8287, 12288]"

text \<open>\<open>s.strip()\<close>: whitespace removed at both ends.\<close>

definition strip :: "str \<Rightarrow> str" where
  "strip s = rev (dropWhile is_space (rev (dropWhile is_space s)))"

text \<open>
  \<open>$\<close> without the MULTILINE flag matches at the end of the string and also just
  before a newline that ends the string.
\<close>

definition dollar :: "str \<Rightarrow> bool" where
  "dollar r \<longleftrightarrow> r = [] \<or> r = [10]"

text \<open>
  \<open>re.match(r"^[a-zA-Z0-9 \.\-_#\(\)]{1,n}$", s)\<close>. The repetition is greedy and a
  newline is not in the class, so the only split that can reach \<open>$\<close> is the longest run
  of class characters.
\<close>

definition match_allowed :: "nat \<Rightarrow> str \<Rightarrow> bool" where
  "match_allowed n s \<longleftrightarrow>
     (let t = takeWhile allowed_char s; r = dropWhile allowed_char s
      in 1 \<le> length t \<and> length t \<le> n \<and> dollar r)"

text \<open>\<open>re.match(r"^#?\d+$", s)\<close>.\<close>

definition match_digits :: "str \<Rightarrow> bool" where
  "match_digits r \<longleftrightarrow> takeWhile is_digit r \<noteq> [] \<and> dollar (dropWhile is_digit r)"

definition match_case_number :: "str \<Rightarrow> bool" where
  "match_case_number s \<longleftrightarrow>
     (case s of [] \<Rightarrow> False
      | c # r \<Rightarrow> if c = 35 then match_digits r else match_digits s)"

text \<open>\<open>re.match(r"^\s*\d+\s*$", s)\<close>.\<close>

definition match_index :: "str \<Rightarrow> bool" where
  "match_index s \<longleftrightarrow>
     (let r = dropWhile is_space s
      in takeWhile is_digit r \<noteq> [] \<and> list_all is_space (dropWhile is_digit r))"

text \<open>\<open>int(s)\<close> on a string of decimal digits (after \<open>strip\<close>).\<close>

definition digit_of :: "nat \<Rightarrow> nat" where
  "digit_of c = (case digit_value c of None \<Rightarrow> 0 | Some d \<Rightarrow> d)"

fun decimal_value :: "nat \<Rightarrow> str \<Rightarrow> nat" where
  "decimal_value a [] = a"
| "decimal_value a (c # cs) = decimal_value (10 * a + digit_of c) cs"

definition int_of_digits :: "str \<Rightarrow> int" where
  "int_of_digits s = int (decimal_value 0 s)"

section \<open>Process state\<close>

text \<open>
  The exceptions the script can meet. The file-system errors carry the path that
  \<open>str(e)\<close> shows.
\<close>

datatype error =
    TypeError
  | AttributeError
  | EOFError
  | NotADirectoryError str
  | FileExistsError str
  | FileNotFoundError str
  | IsADirectoryError str
  | OSError str

definition str_error :: "error \<Rightarrow> str" where
  "str_error e = (case e of
       TypeError \<Rightarrow> quoted (S ''<='') @ S '' not supported between instances of ''
                    @ quoted (S ''int'') @ S '' and '' @ quoted (S ''NoneType'')
     | AttributeError \<Rightarrow> S ''type object '' @ quoted (S ''MSG'') @ S '' has no attribute ''
                         @ quoted (S ''_name_lookup'')
     | EOFError \<Rightarrow> S ''EOF when reading a line''
     | NotADirectoryError p \<Rightarrow> S ''[Errno 20] Not a directory: '' @ p
     | FileExistsError p \<Rightarrow> S ''[Errno 17] File exists: '' @ p
     | FileNotFoundError p \<Rightarrow> S ''[Errno 2] No such file or directory: '' @ p
     | IsADirectoryError p \<Rightarrow> S ''[Errno 21] Is a directory: '' @ p
     | OSError p \<Rightarrow> p)"

text \<open>
  A file-system node as \<open>pathlib\<close> sees it, each with its own name:
  \<^item> \<open>File\<close>: a regular file with its content (\<open>is_file()\<close>);
  \<^item> \<open>Dir\<close>: a directory with its entries in the order \<open>iterdir\<close> yields them
    (\<open>is_dir()\<close>);
  \<^item> \<open>Special\<close>: something that exists and is neither (a socket, a FIFO, a device):
    \<open>exists()\<close> is true, \<open>is_dir()\<close> and \<open>is_file()\<close> are false;
  \<^item> \<open>Dangling\<close>: a symbolic link whose target is missing: \<open>iterdir\<close> lists it, and
    \<open>exists()\<close>, \<open>is_dir()\<close> and \<open>is_file()\<close> are all false.
  A symbolic link to an existing file or directory is the node it points to. The tree is
  finite and acyclic, and every directory is readable.
\<close>

datatype node =
    File str str
  | Dir str "node list"
  | Special str
  | Dangling str

text \<open>A relative \<open>Path\<close>: its components below the working directory.\<close>

type_synonym path = "str list"

record datetime =
  year :: nat
  month :: nat
  day :: nat
  hour :: nat
  minute :: nat

text \<open>
  Everything the script reads or changes: the class attribute \<open>MSG.CONFIGURED_LEVEL\<close>
  (\<open>None\<close> until a level is set), the module global \<open>DRYRUN\<close>, the working directory,
  what has been written to standard output (one entry per \<open>print\<close> or prompt), the lines
  still to be read from standard input, and the local time \<open>datetime.now()\<close> returns.
\<close>

record state =
  CONFIGURED_LEVEL :: "int option"
  DRYRUN :: bool
  fs :: node
  stdout :: "str list"
  stdin :: "str list"
  now :: datetime

type_synonym 'a result = "(error + 'a) \<times> state"

text \<open>Sequencing: an exception skips the rest.\<close>

definition seq :: "'a result \<Rightarrow> ('a \<Rightarrow> state \<Rightarrow> 'b result) \<Rightarrow> 'b result" where
  "seq r k = (case r of (Inl e, st) \<Rightarrow> (Inl e, st) | (Inr x, st) \<Rightarrow> k x st)"

definition print :: "str \<Rightarrow> state \<Rightarrow> state" where
  "print line st = st\<lparr>stdout := stdout st @ [line]\<rparr>"

text \<open>\<open>input(prompt)\<close> writes the prompt and reads a line; at end of input it raises.\<close>

definition input :: "str \<Rightarrow> state \<Rightarrow> str result" where
  "input prompt st =
     (let st1 = print prompt st
      in case stdin st1 of
           [] \<Rightarrow> (Inl EOFError, st1)
         | line # rest \<Rightarrow> (Inr line, st1\<lparr>stdin := rest\<rparr>))"

section \<open>Class MSG\<close>

definition SILENT :: int where "SILENT = 1"
definition CRITICAL :: int where "CRITICAL = 2"
definition ERROR :: int where "ERROR = 3"
definition WARNING :: int where "WARNING = 4"
definition INFO :: int where "INFO = 5"
definition VERBOSE :: int where "VERBOSE = 6"
definition DEBUG :: int where "DEBUG = 7"

definition DEFAULT_LEVEL :: int where "DEFAULT_LEVEL = WARNING"

definition level_to_name_lookup :: "(int \<times> str) list" where
  "level_to_name_lookup =
     [(SILENT, S ''SILENT''), (CRITICAL, S ''CRITICAL''), (ERROR, S ''ERROR''),
      (WARNING, S ''WARNING''), (INFO, S ''INFO''), (DEBUG, S ''DEBUG''),
      (VERBOSE, S ''VERBOSE'')]"

definition name_to_level_lookup :: "(str \<times> int) list" where
  "name_to_level_lookup =
     [(S ''SILENT'', SILENT), (S ''CRITICAL'', CRITICAL), (S ''ERROR'', ERROR),
      (S ''WARNING'', WARNING), (S ''INFO'', INFO), (S ''DEBUG'', DEBUG),
      (S ''VERBOSE'', VERBOSE)]"

text \<open>
  The namespace of the class body: every name it binds, with the keys of the two
  dictionaries. An attribute reference \<open>cls.x\<close> to a name that is not bound raises
  AttributeError.
\<close>

datatype attr =
    IntAttr int
  | NoneAttr
  | LevelDict "int list"
  | NameDict "str list"
  | Method

definition MSG_namespace :: "(string \<times> attr) list" where
  "MSG_namespace =
     [(''SILENT'', IntAttr SILENT), (''CRITICAL'', IntAttr CRITICAL),
      (''ERROR'', IntAttr ERROR), (''WARNING'', IntAttr WARNING), (''INFO'', IntAttr INFO),
      (''VERBOSE'', IntAttr VERBOSE), (''DEBUG'', IntAttr DEBUG),
      (''DEFAULT_LEVEL'', IntAttr DEFAULT_LEVEL), (''CONFIGURED_LEVEL'', NoneAttr),
      (''_level_to_name_lookup'', LevelDict (map fst level_to_name_lookup)),
      (''_name_to_level_lookup'', NameDict (map fst name_to_level_lookup)),
      (''getName'', Method), (''getLevel'', Method), (''setLevelByName'', Method),
      (''setLevel'', Method), (''log'', Method)]"

definition MSG_getattr :: "string \<Rightarrow> error + attr" where
  "MSG_getattr name = (case map_of MSG_namespace name of
                         None \<Rightarrow> Inl AttributeError | Some a \<Rightarrow> Inr a)"

text \<open>\<open>level in d\<close> for an integer \<open>level\<close>: a key of the dictionary.\<close>

definition attr_contains :: "attr \<Rightarrow> int \<Rightarrow> error + bool" where
  "attr_contains a level = (case a of
       LevelDict ks \<Rightarrow> Inr (level \<in> set ks)
     | NameDict ks \<Rightarrow> Inr False
     | _ \<Rightarrow> Inl TypeError)"

text \<open>
  The methods are modelled for arguments of the annotated types (\<open>int\<close>, \<open>str\<close>); their
  first check, \<open>type(x) is not int\<close>, is then false.
\<close>

definition MSG_getName :: "int \<Rightarrow> str option" where
  "MSG_getName level =
     (if level \<notin> set (map fst level_to_name_lookup) then None
      else map_of level_to_name_lookup level)"

definition MSG_getLevel :: "str \<Rightarrow> int option" where
  "MSG_getLevel name =
     (if name \<notin> set (map fst name_to_level_lookup) then None
      else map_of name_to_level_lookup name)"

definition MSG_setLevelByName :: "str \<Rightarrow> state \<Rightarrow> bool \<times> state" where
  "MSG_setLevelByName name st =
     (if name \<in> set (map fst name_to_level_lookup)
      then (True, st\<lparr>CONFIGURED_LEVEL := map_of name_to_level_lookup name\<rparr>)
      else (False, print (S ''[ERROR::MSG.setLevelByName] Invalid verbosity level name: ''
                          @ quoted name @ S ''. New verbosity level not set.'') st))"

definition MSG_setLevel :: "int \<Rightarrow> state \<Rightarrow> unit result" where
  "MSG_setLevel level st =
     (case MSG_getattr ''_name_lookup'' of
        Inl e \<Rightarrow> (Inl e, st)
      | Inr d \<Rightarrow>
          (case attr_contains d level of
             Inl e \<Rightarrow> (Inl e, st)
           | Inr found \<Rightarrow>
               if \<not> found
               then (Inr (), print (S ''[ERROR::MSG.setLevel] Invalid verbosity level: ''
                                    @ quoted (str_int level) @ S ''. New verbosity level not set.'') st)
               else (Inr (), st\<lparr>CONFIGURED_LEVEL := Some level\<rparr>)))"

text \<open>
  \<open>verbosity_level <= cls.CONFIGURED_LEVEL\<close> compares an integer with the attribute; when
  the attribute is still \<open>None\<close> the comparison raises TypeError.
\<close>

definition MSG_log :: "int \<Rightarrow> str \<Rightarrow> str \<Rightarrow> state \<Rightarrow> unit result" where
  "MSG_log verbosity_level function_name message st =
     (let verbosity_string = MSG_getName verbosity_level
      in case CONFIGURED_LEVEL st of
           None \<Rightarrow> (Inl TypeError, st)
         | Some configured \<Rightarrow>
             if verbosity_level \<le> configured
             then (Inr (), print (S ''['' @ fmt_opt verbosity_string @ S ''::'' @ function_name
                                  @ S ''] '' @ message) st)
             else (Inr (), st))"

section \<open>Paths and the file system\<close>

fun node_name :: "node \<Rightarrow> str" where
  "node_name (File name content) = name"
| "node_name (Dir name entries) = name"
| "node_name (Special name) = name"
| "node_name (Dangling name) = name"

text \<open>Following a relative path from the working directory.\<close>

fun resolve :: "node \<Rightarrow> path \<Rightarrow> node option" where
  "resolve n [] = Some n"
| "resolve n (c # p) =
     (case n of
        Dir name entries \<Rightarrow>
          (case find (\<lambda>x. node_name x = c) entries of
             None \<Rightarrow> None
           | Some child \<Rightarrow> resolve child p)
      | _ \<Rightarrow> None)"

text \<open>\<open>Path.exists()\<close> and \<open>Path.is_dir()\<close>; both follow links.\<close>

definition path_exists :: "node \<Rightarrow> path \<Rightarrow> bool" where
  "path_exists root p \<longleftrightarrow>
     (case resolve root p of
        None \<Rightarrow> False
      | Some (Dangling name) \<Rightarrow> False
      | Some _ \<Rightarrow> True)"

definition path_is_dir :: "node \<Rightarrow> path \<Rightarrow> bool" where
  "path_is_dir root p \<longleftrightarrow> (case resolve root p of Some (Dir name entries) \<Rightarrow> True | _ \<Rightarrow> False)"

text \<open>\<open>Path.name\<close>, \<open>Path.parent\<close> and \<open>str(path)\<close>.\<close>

definition path_name :: "path \<Rightarrow> str" where
  "path_name p = (if p = [] then [] else last p)"

definition path_parent :: "path \<Rightarrow> path" where
  "path_parent p = butlast p"

fun join_path :: "path \<Rightarrow> str" where
  "join_path [] = [46]"
| "join_path [c] = c"
| "join_path (c # p) = c @ 47 # join_path p"

text \<open>
  \<open>Path.suffix\<close>, as pathlib computes it from the name:
  \<open>i = name.rfind('.')\<close>, then \<open>name[i:]\<close> if \<open>0 < i < len(name) - 1\<close> and the empty
  string otherwise.
\<close>

definition rfind :: "nat \<Rightarrow> str \<Rightarrow> nat option" where
  "rfind c s = (if c \<in> set s
                then Some (length s - 1 - length (takeWhile (\<lambda>x. x \<noteq> c) (rev s)))
                else None)"

definition path_suffix :: "str \<Rightarrow> str" where
  "path_suffix name =
     (case rfind 46 name of
        None \<Rightarrow> []
      | Some i \<Rightarrow> if 0 < i \<and> i < length name - 1 then drop i name else [])"

text \<open>
  \<open>Path.mkdir(parents=True, exist_ok=False)\<close>: missing parents are created; a target
  that is already there (a dangling link too) raises FileExistsError; a parent that is a
  file or a special node raises NotADirectoryError for the requested path, and a parent
  that is a dangling link raises FileExistsError for the link. \<open>pre\<close> is the path of
  the node reached so far, for the error message.
\<close>

fun new_chain :: "str \<Rightarrow> path \<Rightarrow> node" where
  "new_chain c [] = Dir c []"
| "new_chain c (d # p) = Dir c [new_chain d p]"

fun replace_entry :: "str \<Rightarrow> node \<Rightarrow> node list \<Rightarrow> node list" where
  "replace_entry c n [] = []"
| "replace_entry c n (x # xs) =
     (if node_name x = c then n # xs else x # replace_entry c n xs)"

fun mkdir :: "path \<Rightarrow> node \<Rightarrow> path \<Rightarrow> error + node" where
  "mkdir pre n [] = Inl (FileExistsError (quoted (join_path pre)))"
| "mkdir pre n (c # p) =
     (case n of
        Dir name entries \<Rightarrow>
          (case find (\<lambda>x. node_name x = c) entries of
             None \<Rightarrow> Inr (Dir name (entries @ [new_chain c p]))
           | Some child \<Rightarrow>
               (case mkdir (pre @ [c]) child p of
                  Inl e \<Rightarrow> Inl e
                | Inr child' \<Rightarrow> Inr (Dir name (replace_entry c child' entries))))
      | Dangling name \<Rightarrow> Inl (FileExistsError (quoted (join_path pre)))
      | _ \<Rightarrow> Inl (NotADirectoryError (quoted (join_path (pre @ c # p)))))"

definition Path_mkdir :: "path \<Rightarrow> state \<Rightarrow> unit result" where
  "Path_mkdir p st =
     (case mkdir [] (fs st) p of
        Inl e \<Rightarrow> (Inl e, st)
      | Inr root' \<Rightarrow> (Inr (), st\<lparr>fs := root'\<rparr>))"

text \<open>
  \<open>shutil.copy(src, dst)\<close>: the content of the regular file \<open>src\<close> is written to
  \<open>dst\<close>, or into \<open>dst\<close> under the source's name when \<open>dst\<close> is a directory.
  Writing to a target that is a special node or a dangling link depends on what lies
  outside the tree; the model raises OSError there. (The script copies into a directory
  it has just created, where the target does not exist.)
\<close>

fun write_file :: "str \<Rightarrow> node \<Rightarrow> path \<Rightarrow> str \<Rightarrow> error + node" where
  "write_file full n [] content = Inl (IsADirectoryError full)"
| "write_file full n (c # p) content =
     (case n of
        Dir name entries \<Rightarrow>
          (case find (\<lambda>x. node_name x = c) entries of
             None \<Rightarrow>
               if p = [] then Inr (Dir name (entries @ [File c content]))
               else Inl (FileNotFoundError full)
           | Some child \<Rightarrow>
               if p = []
               then (case child of
                       File name' old \<Rightarrow> Inr (Dir name (replace_entry c (File c content) entries))
                     | Dir name' entries' \<Rightarrow> Inl (IsADirectoryError full)
                     | _ \<Rightarrow> Inl (OSError full))
               else (case write_file full child p content of
                       Inl e \<Rightarrow> Inl e
                     | Inr child' \<Rightarrow> Inr (Dir name (replace_entry c child' entries))))
      | Dangling name \<Rightarrow> Inl (FileNotFoundError full)
      | _ \<Rightarrow> Inl (NotADirectoryError full))"

definition shutil_copy :: "path \<Rightarrow> path \<Rightarrow> state \<Rightarrow> unit result" where
  "shutil_copy src dst st =
     (let target = (if path_is_dir (fs st) dst then dst @ [path_name src] else dst)
      in case resolve (fs st) src of
           Some (File name content) \<Rightarrow>
             (case write_file (quoted (join_path target)) (fs st) target content of
                Inl e \<Rightarrow> (Inl e, st)
              | Inr root' \<Rightarrow> (Inr (), st\<lparr>fs := root'\<rparr>))
         | Some (Dir name entries) \<Rightarrow> (Inl (IsADirectoryError (quoted (join_path src))), st)
         | Some (Special name) \<Rightarrow> (Inl (OSError (quoted (join_path src))), st)
         | _ \<Rightarrow> (Inl (FileNotFoundError (quoted (join_path src))), st))"

section \<open>Template discovery\<close>

definition PLAYBOOK_IGNORE_DIRS :: "str list" where
  "PLAYBOOK_IGNORE_DIRS =
     [S ''.ipynb_checkpoints'', S ''__pycache__'', S ''.git'', S ''.venv'', S ''venv'',
      S ''build'', S ''dist'', S ''.cache'', S ''cache'', S ''.vscode'', S ''.idea'',
      S ''.pytest_cache'', S ''node_modules'', S ''.env'', S ''env'', S ''logs'', S ''tmp'',
      S ''temp'']"

text \<open>
  The inner function \<open>recursive_search\<close>: the loop over \<open>current_dir.iterdir()\<close>, with
  the list \<open>playbooks\<close> of the enclosing function, which it appends to, passed along.
\<close>

fun recursive_search :: "path \<Rightarrow> node list \<Rightarrow> path list \<Rightarrow> path list" where
  "recursive_search current_dir [] playbooks = playbooks"
| "recursive_search current_dir (item # items) playbooks =
     recursive_search current_dir items
       (case item of
          Dir name entries \<Rightarrow>
            if name \<notin> set PLAYBOOK_IGNORE_DIRS
            then recursive_search (current_dir @ [name]) entries playbooks
            else playbooks
        | File name content \<Rightarrow>
            if path_suffix name = S ''.ipynb''
            then playbooks @ [current_dir @ [name]]
            else playbooks
        | Special name \<Rightarrow> playbooks
        | Dangling name \<Rightarrow> playbooks)"

definition get_list_of_notebooks :: "path \<Rightarrow> state \<Rightarrow> path list option result" where
  "get_list_of_notebooks playbooks_dir st =
     seq (MSG_log VERBOSE (S ''get_list_of_notebooks'')
            (S ''Fetching all Jupyter Notebook (*.ipynb) files in the ''
             @ quoted (join_path playbooks_dir) @ S '' directory.'') st)
       (\<lambda>_ st.
          case resolve (fs st) playbooks_dir of
            Some (Dir name entries) \<Rightarrow>
              (let playbooks = recursive_search playbooks_dir entries []
               in if playbooks = []
                  then seq (MSG_log WARNING (S ''get_list_of_notebooks'')
                              (S ''No Jupyter notebooks found in ''
                               @ quoted (join_path playbooks_dir) @ S ''.'') st)
                         (\<lambda>_ st. (Inr None, st))
                  else (Inr (Some playbooks), st))
          | _ \<Rightarrow>
              seq (MSG_log ERROR (S ''get_list_of_notebooks'')
                     (S ''Directory string '' @ quoted (join_path playbooks_dir)
                      @ S '' does not point to a valid directory.'') st)
                (\<lambda>_ st. (Inr None, st)))"

text \<open>
  The templates of a directory, stated on the tree and not on the traversal:
  \<open>template_in entries rel\<close> holds when \<open>rel\<close> is the path, relative to the directory
  with these entries, of a regular file whose suffix is \<open>.ipynb\<close>, reached through
  directories none of whose names is in the ignore list.
\<close>

inductive template_in :: "node list \<Rightarrow> path \<Rightarrow> bool" where
  template_here:
    "File name content \<in> set entries \<Longrightarrow> path_suffix name = S ''.ipynb'' \<Longrightarrow>
     template_in entries [name]"
| template_below:
    "Dir name sub \<in> set entries \<Longrightarrow> name \<notin> set PLAYBOOK_IGNORE_DIRS \<Longrightarrow>
     template_in sub rel \<Longrightarrow> template_in entries (name # rel)"

section \<open>Directory naming and creation\<close>

text \<open>
  \<open>strftime('%Y-%m-%dT%H.%M')\<close>: the year in decimal (four digits from the year 1000
  on), the other fields padded to two digits.
\<close>

definition pad2 :: "nat \<Rightarrow> str" where
  "pad2 n = (if n < 10 then 48 # digits_nat n else digits_nat n)"

definition strftime :: "datetime \<Rightarrow> str" where
  "strftime d = digits_nat (year d) @ S ''-'' @ pad2 (month d) @ S ''-'' @ pad2 (day d)
                @ S ''T'' @ pad2 (hour d) @ S ''.'' @ pad2 (minute d)"

text \<open>
  The lines of \<open>create_directory\<close> that build \<open>new_dir_name\<close>; \<open>if case_id:\<close> and
  \<open>if folder_name:\<close> are false for \<open>None\<close> and for the empty string.
\<close>

definition new_dir_name :: "str \<Rightarrow> str option \<Rightarrow> str option \<Rightarrow> str" where
  "new_dir_name current_time case_id folder_name =
     (let name = current_time;
          name = (case case_id of
                    None \<Rightarrow> name
                  | Some c \<Rightarrow> if c \<noteq> [] then name @ S '' '' @ c else name)
      in case folder_name of
           None \<Rightarrow> name @ S '' - New Investigation''
         | Some f \<Rightarrow> if f \<noteq> [] then name @ S '' - '' @ f
                     else name @ S '' - New Investigation'')"

definition create_directory ::
  "path \<Rightarrow> str option \<Rightarrow> str option \<Rightarrow> state \<Rightarrow> path option result" where
  "create_directory investigations_dir case_id folder_name st =
     (if \<not> path_exists (fs st) investigations_dir
      then seq (MSG_log ERROR (S ''create_directory'')
                  (S ''Investigations directory '' @ quoted (join_path investigations_dir)
                   @ S '' does not exist.'') st)
             (\<lambda>_ st. (Inr None, st))
      else
        let current_time = strftime (now st);
            name = new_dir_name current_time case_id folder_name
        in seq (MSG_log INFO (S ''create_directory'')
                  (S ''New directory name: '' @ quoted name) st)
             (\<lambda>_ st.
                if \<not> match_allowed 75 name
                then seq (MSG_log ERROR (S ''create_directory'')
                            (S ''Invalid directory name: '' @ quoted name @ S ''.'') st)
                       (\<lambda>_ st. (Inr None, st))
                else
                  let new_dir_path = investigations_dir @ [name]
                  in if path_exists (fs st) new_dir_path
                     then seq (MSG_log ERROR (S ''create_directory'')
                                 (S ''Directory '' @ quoted (join_path new_dir_path)
                                  @ S '' already exists.'') st)
                            (\<lambda>_ st. (Inr None, st))
                     else if DRYRUN st
                     then seq (MSG_log DEBUG (S ''create_directory'')
                                 (S ''DRYRUN: Would have created directory ''
                                  @ quoted (join_path new_dir_path) @ S ''.'') st)
                            (\<lambda>_ st. (Inr None, st))
                     else seq (Path_mkdir new_dir_path st)
                            (\<lambda>_ st.
                               if \<not> path_exists (fs st) new_dir_path
                               then seq (MSG_log ERROR (S ''create_directory'')
                                           (S ''Failed to create directory ''
                                            @ quoted (join_path new_dir_path) @ S ''.'') st)
                                      (\<lambda>_ st. (Inr None, st))
                               else seq (MSG_log INFO (S ''create_directory'')
                                           (S ''Created directory ''
                                            @ quoted (join_path new_dir_path) @ S ''.'') st)
                                      (\<lambda>_ st. (Inr (Some new_dir_path), st)))))"

section \<open>The interactive orchestrator\<close>

definition PLAYBOOKS_DIR :: path where
  "PLAYBOOKS_DIR = [S ''Playbooks'']"

definition INVESTIGATIONS_DIR :: path where
  "INVESTIGATIONS_DIR = [S ''Investigations'']"

definition RETURN_SUCCESS :: int where "RETURN_SUCCESS = 0"
definition RETURN_ERROR :: int where "RETURN_ERROR = 1"
definition RETURN_INVALID :: int where "RETURN_INVALID = 2"
definition RETURN_NOT_IMPLEMENTED :: int where "RETURN_NOT_IMPLEMENTED = 3"

text \<open>\<open>for i, notebook in enumerate(playbooks, 1): print(f"{i}. {notebook}")\<close>\<close>

fun print_notebooks :: "nat \<Rightarrow> path list \<Rightarrow> state \<Rightarrow> state" where
  "print_notebooks i [] st = st"
| "print_notebooks i (notebook # rest) st =
     print_notebooks (i + 1) rest (print (digits_nat i @ S ''. '' @ join_path notebook) st)"

text \<open>
  The selection loop. Each round reads one line, so the loop ends when a line is
  accepted or when the input is exhausted (EOFError). The interpreter's limit on the
  number of digits \<open>int()\<close> converts is not modelled.
\<close>

function select_loop :: "path list \<Rightarrow> state \<Rightarrow> int result" where
  "select_loop playbooks st =
     (case input (S ''SELECT> Select a notebook by number: '') st of
        (Inl e, st1) \<Rightarrow> (Inl e, st1)
      | (Inr raw_input, st1) \<Rightarrow>
          if raw_input \<noteq> [] \<and> match_index raw_input
          then
            (let playbook_index = int_of_digits (strip raw_input) - 1
             in if playbook_index \<ge> 0 \<and> playbook_index < int (length playbooks)
                then (Inr playbook_index, st1)
                else select_loop playbooks
                       (print (S ''SELECT> Invalid input. Please enter a number corresponding to the notebook.'') st1))
          else select_loop playbooks
                 (print (S ''SELECT> Invalid input. Please enter a number corresponding to the notebook.'') st1))"
  by pat_completeness auto
termination
  by (relation "measure (\<lambda>(playbooks, st). length (stdin st))")
     (auto simp: input_def print_def Let_def split: list.splits)

text \<open>The case-reference loop.\<close>

function case_id_loop :: "state \<Rightarrow> str option result" where
  "case_id_loop st =
     (case input (S ''ID ref> Enter case ID: '') st of
        (Inl e, st1) \<Rightarrow> (Inl e, st1)
      | (Inr line, st1) \<Rightarrow>
          (let case_id = strip line
           in if case_id = [] then (Inr None, st1)
              else if match_case_number case_id
              then (Inr (Some (if take 1 case_id \<noteq> S ''#'' then S ''#'' @ case_id else case_id)), st1)
              else if match_allowed 20 case_id
              then (Inr (Some (S ''#('' @ case_id @ S '')'')), st1)
              else
                (case MSG_log WARNING (S ''main'')
                        (S ''Invalid input. Please enter a valid case ID reference or leave it empty.'') st1 of
                   (Inl e, st2) \<Rightarrow> (Inl e, st2)
                 | (Inr u, st2) \<Rightarrow>
                     (case MSG_log INFO (S ''main'')
                             (S ''ID ref explanation> The case ID can be 20 characters long and contain letters [a-z], numbers [0-9].'') st2 of
                        (Inl e, st3) \<Rightarrow> (Inl e, st3)
                      | (Inr u, st3) \<Rightarrow>
                          (case MSG_log INFO (S ''main'')
                                  (S ''ID ref explanation> It can also contain space and some special characters: . - _ # ( )'') st3 of
                             (Inl e, st4) \<Rightarrow> (Inl e, st4)
                           | (Inr u, st4) \<Rightarrow> case_id_loop st4)))))"
  by pat_completeness auto
termination
  by (relation "measure (\<lambda>st. length (stdin st))")
     (auto simp: input_def print_def MSG_log_def Let_def split: list.splits option.splits if_splits)

text \<open>
  The state after the three \<open>log\<close> calls of the loop's last branch, which reports an
  input that is not accepted.
\<close>

definition rejected :: "state \<Rightarrow> state" where
  "rejected st =
     snd (MSG_log INFO (S ''main'')
            (S ''ID ref explanation> It can also contain space and some special characters: . - _ # ( )'')
            (snd (MSG_log INFO (S ''main'')
                    (S ''ID ref explanation> The case ID can be 20 characters long and contain letters [a-z], numbers [0-9].'')
                    (snd (MSG_log WARNING (S ''main'')
                            (S ''Invalid input. Please enter a valid case ID reference or leave it empty.'')
                            st)))))"

text \<open>
  \<open>main\<close>, written in the order of its steps, last step first: each definition is the
  part of the function body from one comment block of the source to the end.
\<close>

text \<open>Copy the notebook to the new directory, and verify the copy.\<close>

definition main_copy :: "path \<Rightarrow> path \<Rightarrow> state \<Rightarrow> int option result" where
  "main_copy selected_notebook new_dir st =
     (let new_filename = S ''inv_'' @ path_name selected_notebook;
          new_notebook_path = new_dir @ [new_filename]
      in case shutil_copy selected_notebook new_notebook_path st of
           (Inl e, st1) \<Rightarrow>
             seq (MSG_log ERROR (S ''main'')
                    (S ''Failed to copy the notebook: '' @ str_error e) st1)
               (\<lambda>_ st. (Inr (Some RETURN_ERROR), st))
         | (Inr u, st1) \<Rightarrow>
             if \<not> path_exists (fs st1) new_notebook_path
             then seq (MSG_log ERROR (S ''main'')
                         (S ''Failed to copy the notebook to the new directory.'') st1)
                    (\<lambda>_ st. (Inr (Some RETURN_ERROR), st))
             else seq (MSG_log INFO (S ''main'')
                         (S ''Copied notebook to the new directory: ''
                          @ join_path new_notebook_path) st1)
                    (\<lambda>_ st. (Inr None, st)))"

text \<open>
  Create the investigation directory: an exception of \<open>create_directory\<close> is caught and
  reported; \<open>not new_dir or not new_dir.exists()\<close> ends the run with RETURN_ERROR.
\<close>

definition main_create :: "path \<Rightarrow> str \<Rightarrow> str option \<Rightarrow> state \<Rightarrow> int option result" where
  "main_create selected_notebook notebook_folder case_id st =
     (case create_directory INVESTIGATIONS_DIR case_id (Some notebook_folder) st of
        (Inl e, st1) \<Rightarrow>
          seq (MSG_log ERROR (S ''main'')
                 (S ''Failed to create directory: '' @ str_error e) st1)
            (\<lambda>_ st. (Inr (Some RETURN_ERROR), st))
      | (Inr None, st1) \<Rightarrow>
          seq (MSG_log ERROR (S ''main'')
                 (S ''Failed to create directory for the new investigation.'') st1)
            (\<lambda>_ st. (Inr (Some RETURN_ERROR), st))
      | (Inr (Some new_dir), st1) \<Rightarrow>
          if \<not> path_exists (fs st1) new_dir
          then seq (MSG_log ERROR (S ''main'')
                      (S ''Failed to create directory for the new investigation.'') st1)
                 (\<lambda>_ st. (Inr (Some RETURN_ERROR), st))
          else main_copy selected_notebook new_dir st1)"

text \<open>Prompt for the case reference, then create the directory.\<close>

definition main_case_id :: "path \<Rightarrow> str \<Rightarrow> state \<Rightarrow> int option result" where
  "main_case_id selected_notebook notebook_folder st =
     seq (case_id_loop
            (print (S ''ID ref> Press Enter to leave the reference empty for now.'')
               (print (S ''ID ref> Enter an Argus or Remedy case ID reference.'') st)))
       (\<lambda>case_id st.
          seq (MSG_log INFO (S ''main'') (S ''Case ID reference: '' @ fmt_opt case_id) st)
            (\<lambda>_ st. main_create selected_notebook notebook_folder case_id st))"

text \<open>
  Display the notebooks, read the selection, and determine the notebook's name and
  folder. A \<open>Path\<close> is always true as a condition; a name is true when it is not empty.
\<close>

definition main_select :: "path list \<Rightarrow> state \<Rightarrow> int option result" where
  "main_select playbooks st =
     seq (select_loop playbooks
            (print_notebooks 1 playbooks (print (S ''SELECT> Available Jupyter notebooks:'') st)))
       (\<lambda>playbook_index st.
          let selected_notebook =
                (if playbook_index \<ge> 0 \<and> playbook_index < int (length playbooks)
                 then Some (playbooks ! nat playbook_index) else None);
              notebook_name =
                (case selected_notebook of
                   None \<Rightarrow> None
                 | Some nb \<Rightarrow> if path_name nb \<noteq> [] then Some nb else None);
              notebook_folder =
                (case selected_notebook of
                   None \<Rightarrow> None
                 | Some nb \<Rightarrow> if path_name (path_parent nb) \<noteq> []
                              then Some (path_name (path_parent nb)) else None)
          in if selected_notebook = None \<or> notebook_name = None \<or> notebook_folder = None
             then
               seq (MSG_log ERROR (S ''main'')
                      (S ''Error determining notebook name and folder. Exiting.'') st)
                 (\<lambda>_ st.
               seq (MSG_log DEBUG (S ''main'')
                      (S ''Selected notebook: '' @ fmt_opt (map_option join_path selected_notebook)) st)
                 (\<lambda>_ st.
               seq (MSG_log DEBUG (S ''main'')
                      (S ''Notebook name: '' @ fmt_opt (map_option join_path notebook_name)) st)
                 (\<lambda>_ st.
               seq (MSG_log DEBUG (S ''main'')
                      (S ''Notebook folder: '' @ fmt_opt notebook_folder) st)
                 (\<lambda>_ st. (Inr (Some RETURN_ERROR), st)))))
             else
               (case (selected_notebook, notebook_folder) of
                  (Some notebook, Some folder) \<Rightarrow>
                    seq (MSG_log INFO (S ''main'')
                           (S ''Selected notebook: ['' @ str_int (playbook_index + 1) @ S ''] ''
                            @ path_name notebook) st)
                      (\<lambda>_ st. main_case_id notebook folder st)
                | _ \<Rightarrow> (Inr (Some RETURN_ERROR), st)))"

text \<open>
  \<open>not PLAYBOOKS_DIR.exists() or not any(PLAYBOOKS_DIR.iterdir())\<close>: \<open>iterdir\<close> on a
  path that exists and is not a directory raises NotADirectoryError; a missing path, a
  dangling link and an empty directory take the error branch.
\<close>

definition main :: "state \<Rightarrow> int option result" where
  "main st =
     (case resolve (fs st) PLAYBOOKS_DIR of
        Some (Dir name (entry # entries)) \<Rightarrow>
          seq (MSG_log VERBOSE (S ''main'')
                 (S ''Playbooks directory '' @ quoted (join_path PLAYBOOKS_DIR) @ S '' exists.'') st)
            (\<lambda>_ st.
               seq (get_list_of_notebooks PLAYBOOKS_DIR st)
                 (\<lambda>found st.
                    case found of
                      Some (notebook # notebooks) \<Rightarrow>
                        seq (MSG_log VERBOSE (S ''main'')
                               (S ''Found '' @ digits_nat (length (notebook # notebooks))
                                @ S '' Jupyter notebooks in the Playbooks directory.'') st)
                          (\<lambda>_ st. main_select (notebook # notebooks) st)
                    | _ \<Rightarrow>
                        seq (MSG_log ERROR (S ''main'')
                               (S ''No Jupyter notebooks found in the Playbooks directory. Exiting.'') st)
                          (\<lambda>_ st. (Inr (Some RETURN_ERROR), st))))
      | Some (File name content) \<Rightarrow> (Inl (NotADirectoryError (quoted (join_path PLAYBOOKS_DIR))), st)
      | Some (Special name) \<Rightarrow> (Inl (NotADirectoryError (quoted (join_path PLAYBOOKS_DIR))), st)
      | _ \<Rightarrow>
          seq (MSG_log ERROR (S ''main'')
                 (S ''Playbooks directory '' @ quoted (join_path PLAYBOOKS_DIR)
                  @ S '' does not exist or is empty.'') st)
            (\<lambda>_ st. (Inr (Some RETURN_ERROR), st)))"

section \<open>The script entry point\<close>

record args =
  arg_silent :: bool
  arg_critical :: bool
  arg_error :: bool
  arg_warning :: bool
  arg_info :: bool
  arg_verbose :: bool
  arg_debug :: bool
  arg_dryrun :: bool

definition DEFAULT_VERBOSITY :: str where
  "DEFAULT_VERBOSITY = S ''WARNING''"

text \<open>\<open>vars(args)\<close>: the flags in the order they were added to the parser.\<close>

definition args_dict :: "args \<Rightarrow> (str \<times> bool) list" where
  "args_dict a =
     [(S ''silent'', arg_silent a), (S ''critical'', arg_critical a), (S ''error'', arg_error a),
      (S ''warning'', arg_warning a), (S ''info'', arg_info a), (S ''verbose'', arg_verbose a),
      (S ''debug'', arg_debug a), (S ''dryrun'', arg_dryrun a)]"

definition upper :: "str \<Rightarrow> str" where
  "upper s = map (\<lambda>c. if 97 \<le> c \<and> c \<le> 122 then c - 32 else c) s"

definition level_flags :: "str list" where
  "level_flags = [S ''silent'', S ''critical'', S ''error'', S ''warning'', S ''info'',
                  S ''verbose'', S ''debug'']"

definition verbosity_of :: "args \<Rightarrow> str" where
  "verbosity_of a =
     (case find (\<lambda>(level_flag, is_set). is_set \<and> level_flag \<in> set level_flags) (args_dict a) of
        None \<Rightarrow> DEFAULT_VERBOSITY
      | Some (level_flag, is_set) \<Rightarrow> upper level_flag)"

text \<open>
  The block under \<open>if __name__ == "__main__"\<close>. The result is the exit status, or the
  exception that leaves the script uncaught. \<open>exit(1)\<close> raises SystemExit, which the
  \<open>except Exception\<close> around the verbosity set-up does not catch.
\<close>

definition run_main :: "str \<Rightarrow> args \<Rightarrow> state \<Rightarrow> int result" where
  "run_main verbosity a st =
     seq (if arg_dryrun a
          then seq (MSG_log VERBOSE (S ''__main__'') (S ''Enabling DRYRUN mode.'') st)
                 (\<lambda>_ st.
                    MSG_log VERBOSE (S ''__main__'')
                      (S ''Running in dryrun mode with verbosity level '' @ verbosity
                       @ S ''. No changes will be made.'') (st\<lparr>DRYRUN := True\<rparr>))
          else MSG_log VERBOSE (S ''__main__'')
                 (S ''Running with verbosity level '' @ verbosity @ S ''.'') st)
       (\<lambda>_ st.
          seq (main st)
            (\<lambda>r st.
               case r of
                 None \<Rightarrow>
                   seq (MSG_log INFO (S ''__main__'')
                          (S ''Script execution completed successfully. Exiting normally.'') st)
                     (\<lambda>_ st. (Inr 0, st))
               | Some code \<Rightarrow>
                   if code = 0
                   then seq (MSG_log INFO (S ''__main__'')
                               (S ''Script execution completed successfully. Exiting normally.'') st)
                          (\<lambda>_ st. (Inr 0, st))
                   else if code = RETURN_ERROR
                   then seq (MSG_log ERROR (S ''__main__'')
                               (S ''Script execution failed. Exiting with error.'') st)
                          (\<lambda>_ st. (Inr 1, st))
                   else if code = RETURN_NOT_IMPLEMENTED
                   then seq (MSG_log ERROR (S ''__main__'')
                               (S ''Script execution ended with '' @ quoted (S ''NOT IMPLEMENTED'')
                                @ S ''. Exiting with error.'') st)
                          (\<lambda>_ st. (Inr 1, st))
                   else seq (MSG_log ERROR (S ''__main__'')
                               (S ''Script execution ended with an unknown error. Exiting with error.'') st)
                          (\<lambda>_ st. (Inr 1, st))))"

definition script :: "args \<Rightarrow> state \<Rightarrow> int result" where
  "script a st =
     (let verbosity = verbosity_of a
      in if verbosity \<noteq> []
         then (case MSG_setLevelByName verbosity st of
                 (False, st1) \<Rightarrow>
                   (Inr 1, print (S ''[ERROR::__main__] Invalid logging verbosity level in configuration: ''
                                  @ verbosity @ S ''. Exiting.'') st1)
               | (True, st1) \<Rightarrow>
                   (case MSG_log VERBOSE (S ''__main__'')
                           (S ''Set verbosity level to '' @ verbosity @ S ''.'') st1 of
                      (Inl e, st2) \<Rightarrow>
                        (Inr 1, print (S ''[ERROR::__main__] Error setting logging verbosity level: ''
                                       @ str_error e @ S ''. Exiting.'') st2)
                    | (Inr u, st2) \<Rightarrow> run_main verbosity a st2))
         else (case MSG_setLevelByName (S ''WARNING'') st of
                 (b, st1) \<Rightarrow>
                   (case MSG_log VERBOSE (S ''__main__'')
                           (S ''No verbosity level specified; using default level WARNING.'') st1 of
                      (Inl e, st2) \<Rightarrow>
                        (Inr 1, print (S ''[ERROR::__main__] Error setting logging verbosity level: ''
                                       @ str_error e @ S ''. Exiting.'') st2)
                    | (Inr u, st2) \<Rightarrow> run_main verbosity a st2)))"

section \<open>Example states\<close>

text \<open>
  A working directory with \<open>Playbooks/a/x.ipynb\<close>, \<open>Playbooks/.git/y.ipynb\<close> and an
  empty \<open>Investigations\<close>, at 2024-01-02 03:04 local time.
\<close>

definition example_fs :: node where
  "example_fs =
     Dir []
       [Dir (S ''Playbooks'')
          [Dir (S ''a'') [File (S ''x.ipynb'') (S ''c1'')],
           Dir (S ''.git'') [File (S ''y.ipynb'') (S ''c2'')]],
        Dir (S ''Investigations'') []]"

definition example_state :: "int option \<Rightarrow> bool \<Rightarrow> str list \<Rightarrow> state" where
  "example_state level dry lines =
     \<lparr>CONFIGURED_LEVEL = level, DRYRUN = dry, fs = example_fs, stdout = [], stdin = lines,
      now = \<lparr>year = 2024, month = 1, day = 2, hour = 3, minute = 4\<rparr>\<rparr>"

definition example_args :: "bool \<Rightarrow> args" where
  "example_args dry =
     \<lparr>arg_silent = False, arg_critical = False, arg_error = False, arg_warning = False,
      arg_info = False, arg_verbose = False, arg_debug = False, arg_dryrun = dry\<rparr>"

text \<open>The same, with the directory \<open>Investigations/2024-01-02T03.04 #42 - a\<close> already there.\<close>

definition collision_fs :: node where
  "collision_fs =
     Dir []
       [Dir (S ''Playbooks'') [Dir (S ''a'') [File (S ''x.ipynb'') (S ''c1'')]],
        Dir (S ''Investigations'') [Dir (S ''2024-01-02T03.04 #42 - a'') []]]"

section \<open>Evaluating the model\<close>

text \<open>
  Concrete runs are evaluated by the simplifier with the definitions below. The two
  congruence rules make it evaluate a condition or a bound value before the code that
  depends on it.
\<close>

lemma seq_weak_cong: "r = r' \<Longrightarrow> seq r k = seq r' k"
  by simp

lemmas level_defs =
  SILENT_def CRITICAL_def ERROR_def WARNING_def INFO_def VERBOSE_def DEBUG_def

lemmas eval_defs =
  main_def PLAYBOOKS_DIR_def example_state_def example_fs_def collision_fs_def MSG_log_def
  print_def get_list_of_notebooks_def path_suffix_def rfind_def PLAYBOOK_IGNORE_DIRS_def
  main_select_def input_def match_index_def is_space_def is_digit_def digit_value_def
  Nd_zeros_def int_of_digits_def digit_of_def strip_def path_name_def path_parent_def
  main_case_id_def match_case_number_def match_digits_def dollar_def match_allowed_def
  allowed_char_def main_create_def create_directory_def path_exists_def path_is_dir_def
  INVESTIGATIONS_DIR_def strftime_def pad2_def new_dir_name_def level_defs RETURN_ERROR_def
  RETURN_NOT_IMPLEMENTED_def Let_def seq_def script_def run_main_def example_args_def
  verbosity_of_def args_dict_def level_flags_def upper_def MSG_setLevelByName_def
  name_to_level_lookup_def DEFAULT_VERBOSITY_def main_copy_def shutil_copy_def Path_mkdir_def
  quoted_def MSG_getName_def level_to_name_lookup_def fmt_opt_def

section \<open>The logger\<close>

lemma MSG_log_set:
  "CONFIGURED_LEVEL st = Some c \<Longrightarrow>
   MSG_log level src msg st =
     (Inr (), if level \<le> c
              then st\<lparr>stdout := stdout st @
                       [S ''['' @ fmt_opt (MSG_getName level) @ S ''::'' @ src @ S ''] '' @ msg]\<rparr>
              else st)"
  by (simp add: MSG_log_def print_def)

text \<open>
  C6. Once a level is configured, \<open>log(level, source_label, message)\<close> appends the line
  \<open>[<LEVEL_NAME>::<source_label>] <message>\<close> to standard output exactly when
  \<open>level <= configured_level\<close>, and changes nothing else; the call returns normally. The
  tag is the name of the level for the values 1 to 7, and the text \<open>None\<close> for an
  integer that is no level (\<open>getName\<close> returns \<open>None\<close> there).
\<close>

theorem log_prints_iff_level_le_configured:
  assumes "CONFIGURED_LEVEL st = Some configured"
  shows "MSG_log level source_label message st =
           (Inr (), if level \<le> configured
                    then st\<lparr>stdout := stdout st @
                             [S ''[''
                              @ (if level = 1 then S ''SILENT''
                                 else if level = 2 then S ''CRITICAL''
                                 else if level = 3 then S ''ERROR''
                                 else if level = 4 then S ''WARNING''
                                 else if level = 5 then S ''INFO''
                                 else if level = 6 then S ''VERBOSE''
                                 else if level = 7 then S ''DEBUG''
                                 else S ''None'')
                              @ S ''::'' @ source_label @ S ''] '' @ message]\<rparr>
                    else st)
         \<and> map MSG_getName [1, 2, 3, 4, 5, 6, 7] =
             [Some (S ''SILENT''), Some (S ''CRITICAL''), Some (S ''ERROR''), Some (S ''WARNING''),
              Some (S ''INFO''), Some (S ''VERBOSE''), Some (S ''DEBUG'')]"
  using assms
  by (simp add: MSG_log_def print_def MSG_getName_def level_to_name_lookup_def level_defs
      fmt_opt_def)

theorem log_prints_iff_level_le_configured_witness:
  "CONFIGURED_LEVEL (example_state (Some 4) False []) = Some 4
   \<and> MSG_log 3 (S ''main'') (S ''hello'') (example_state (Some 4) False []) =
       (Inr (), (example_state (Some 4) False [])\<lparr>stdout := [S ''[ERROR::main] hello'']\<rparr>)
   \<and> MSG_log 4 (S ''main'') (S ''hello'') (example_state (Some 4) False []) =
       (Inr (), (example_state (Some 4) False [])\<lparr>stdout := [S ''[WARNING::main] hello'']\<rparr>)
   \<and> MSG_log 5 (S ''main'') (S ''hello'') (example_state (Some 4) False []) =
       (Inr (), example_state (Some 4) False [])"
proof -
  have h: "CONFIGURED_LEVEL (example_state (Some 4) False []) = Some 4"
    by (simp add: example_state_def)
  show ?thesis
    using h log_prints_iff_level_le_configured [OF h, of 3 "S ''main''" "S ''hello''"]
      log_prints_iff_level_le_configured [OF h, of 4 "S ''main''" "S ''hello''"]
      log_prints_iff_level_le_configured [OF h, of 5 "S ''main''" "S ''hello''"]
    by (simp add: example_state_def)
qed

text \<open>
  C7. When no level has been set, \<open>CONFIGURED_LEVEL\<close> is still \<open>None\<close> and every call
  of \<open>log\<close>, at any level, raises TypeError at the comparison and prints nothing:
  \<open>DEFAULT_LEVEL\<close> is never read.
\<close>

theorem log_raises_when_level_never_set:
  "MSG_log level function_name message (st\<lparr>CONFIGURED_LEVEL := None\<rparr>) =
     (Inl TypeError, st\<lparr>CONFIGURED_LEVEL := None\<rparr>)"
  by (simp add: MSG_log_def)

text \<open>
  C10. \<open>setLevel\<close> raises AttributeError for every integer argument, since the class
  binds no attribute \<open>_name_lookup\<close>, and leaves the state as it was; \<open>log\<close> does not
  change the configured level either, while \<open>setLevelByName\<close> does set it.
\<close>

theorem setLevel_always_raises:
  "MSG_setLevel level st = (Inl AttributeError, st)
   \<and> CONFIGURED_LEVEL (snd (MSG_log l function_name message st)) = CONFIGURED_LEVEL st
   \<and> MSG_setLevelByName (S ''DEBUG'') st = (True, st\<lparr>CONFIGURED_LEVEL := Some DEBUG\<rparr>)"
  by (simp add: MSG_setLevel_def MSG_getattr_def MSG_namespace_def MSG_log_def print_def
      MSG_setLevelByName_def name_to_level_lookup_def split: option.splits)

section \<open>Template discovery: results\<close>

lemma recursive_search_sound:
  "p \<in> set (recursive_search cur items acc) \<Longrightarrow>
   p \<in> set acc \<or>
   (\<exists>rel. p = cur @ rel \<and> rel \<noteq> [] \<and> path_suffix (last rel) = S ''.ipynb''
          \<and> (\<forall>d \<in> set (butlast rel). d \<notin> set PLAYBOOK_IGNORE_DIRS))"
proof (induction cur items acc rule: recursive_search.induct)
  case (1 current_dir playbooks)
  then show ?case by simp
next
  case (2 current_dir item items playbooks)
  show ?case
  proof (cases item)
    case (File name content)
    with 2 show ?thesis
      by (auto split: if_splits)
  next
    case (Dir name entries)
    show ?thesis
    proof (cases "name \<in> set PLAYBOOK_IGNORE_DIRS")
      case True
      with 2 Dir show ?thesis by auto
    next
      case False
      from 2(3) Dir False
      have "p \<in> set (recursive_search current_dir items
                        (recursive_search (current_dir @ [name]) entries playbooks))"
        by simp
      with 2(2) [of ] Dir False
      have "p \<in> set (recursive_search (current_dir @ [name]) entries playbooks) \<or>
            (\<exists>rel. p = current_dir @ rel \<and> rel \<noteq> [] \<and> path_suffix (last rel) = S ''.ipynb''
               \<and> (\<forall>d \<in> set (butlast rel). d \<notin> set PLAYBOOK_IGNORE_DIRS))"
        by simp
      then show ?thesis
      proof
        assume "p \<in> set (recursive_search (current_dir @ [name]) entries playbooks)"
        with 2(1) [OF Dir False]
        have "p \<in> set playbooks \<or>
              (\<exists>rel. p = (current_dir @ [name]) @ rel \<and> rel \<noteq> [] \<and> path_suffix (last rel) = S ''.ipynb''
               \<and> (\<forall>d \<in> set (butlast rel). d \<notin> set PLAYBOOK_IGNORE_DIRS))"
          by simp
        then show ?thesis
        proof
          assume "p \<in> set playbooks" then show ?thesis by simp
        next
          assume "\<exists>rel. p = (current_dir @ [name]) @ rel \<and> rel \<noteq> [] \<and> path_suffix (last rel) = S ''.ipynb''
               \<and> (\<forall>d \<in> set (butlast rel). d \<notin> set PLAYBOOK_IGNORE_DIRS)"
          then obtain rel where r: "p = (current_dir @ [name]) @ rel" "rel \<noteq> []"
            "path_suffix (last rel) = S ''.ipynb''" "\<forall>d \<in> set (butlast rel). d \<notin> set PLAYBOOK_IGNORE_DIRS"
            by blast
          have "p = current_dir @ (name # rel) \<and> name # rel \<noteq> [] \<and>
                path_suffix (last (name # rel)) = S ''.ipynb'' \<and>
                (\<forall>d \<in> set (butlast (name # rel)). d \<notin> set PLAYBOOK_IGNORE_DIRS)"
            using r False by simp
          then show ?thesis by blast
        qed
      next
        assume "\<exists>rel. p = current_dir @ rel \<and> rel \<noteq> [] \<and> path_suffix (last rel) = S ''.ipynb''
               \<and> (\<forall>d \<in> set (butlast rel). d \<notin> set PLAYBOOK_IGNORE_DIRS)"
        then show ?thesis by simp
      qed
    qed
  next
    case (Special name)
    with 2 show ?thesis by auto
  next
    case (Dangling name)
    with 2 show ?thesis by auto
  qed
qed

lemma get_list_result:
  "CONFIGURED_LEVEL st = Some c \<Longrightarrow>
   fst (get_list_of_notebooks root st) =
     (case resolve (fs st) root of
        Some (Dir name entries) \<Rightarrow>
          if recursive_search root entries [] = [] then Inr None
          else Inr (Some (recursive_search root entries []))
      | _ \<Rightarrow> Inr None)"
  by (simp add: get_list_of_notebooks_def seq_def MSG_log_set print_def Let_def
      split: option.splits node.splits)

lemma example_discovery:
  "get_list_of_notebooks PLAYBOOKS_DIR (example_state (Some 4) False []) =
     (Inr (Some [[S ''Playbooks'', S ''a'', S ''x.ipynb'']]), example_state (Some 4) False [])"
  by (simp add: eval_defs cong: let_weak_cong seq_weak_cong)

lemma example_discovery_missing:
  "get_list_of_notebooks [S ''Missing''] (example_state (Some 4) False []) =
     (Inr None, (example_state (Some 4) False [])\<lparr>stdout :=
        [S ''[ERROR::get_list_of_notebooks] Directory string '' @ quoted (S ''Missing'') @ S '' does not point to a valid directory.'']\<rparr>)"
  by (simp add: eval_defs cong: let_weak_cong seq_weak_cong)

text \<open>
  C2. Every path that discovery returns lies below the root, none of the directories
  between the root and the file has a name of the ignore list, at any depth, and the
  file's \<open>suffix\<close> is \<open>.ipynb\<close>. (The root is the argument of the call; its own name is
  not looked up in the list.)
\<close>

theorem discovery_skips_ignored_directories:
  assumes "get_list_of_notebooks root st = (Inr (Some playbooks), st')"
      and "p \<in> set playbooks"
  shows "take (length root) p = root \<and> drop (length root) p \<noteq> []
         \<and> path_suffix (path_name p) = S ''.ipynb''
         \<and> (\<forall>d \<in> set (butlast (drop (length root) p)). d \<notin> set PLAYBOOK_IGNORE_DIRS)"
proof -
  from assms(1) obtain entries where
    ps: "playbooks = recursive_search root entries []"
    by (auto simp: get_list_of_notebooks_def seq_def MSG_log_def Let_def
        split: option.splits node.splits if_splits)
  with assms(2) recursive_search_sound [of p root entries "[]"]
  obtain rel where r: "p = root @ rel" "rel \<noteq> []" "path_suffix (last rel) = S ''.ipynb''"
    "\<forall>d \<in> set (butlast rel). d \<notin> set PLAYBOOK_IGNORE_DIRS"
    by auto
  then show ?thesis by (simp add: path_name_def)
qed

theorem discovery_skips_ignored_directories_witness:
  "get_list_of_notebooks PLAYBOOKS_DIR (example_state (Some 4) False []) =
     (Inr (Some [[S ''Playbooks'', S ''a'', S ''x.ipynb'']]), example_state (Some 4) False [])
   \<and> path_suffix (path_name [S ''Playbooks'', S ''a'', S ''x.ipynb'']) = S ''.ipynb''
   \<and> S ''a'' \<notin> set PLAYBOOK_IGNORE_DIRS
   \<and> S ''.git'' \<in> set PLAYBOOK_IGNORE_DIRS"
proof -
  have m: "[S ''Playbooks'', S ''a'', S ''x.ipynb''] \<in> set [[S ''Playbooks'', S ''a'', S ''x.ipynb'']]"
    by simp
  have g: "S ''.git'' \<in> set PLAYBOOK_IGNORE_DIRS"
    by (simp add: PLAYBOOK_IGNORE_DIRS_def)
  show ?thesis
    using discovery_skips_ignored_directories [OF example_discovery m] example_discovery g
    by (simp add: PLAYBOOKS_DIR_def)
qed

lemma template_in_Nil: "\<not> template_in [] rel"
  by (auto elim: template_in.cases)

lemma template_in_Cons:
  "template_in (item # items) rel \<longleftrightarrow>
     (case item of
        File name content \<Rightarrow> rel = [name] \<and> path_suffix name = S ''.ipynb''
      | Dir name sub \<Rightarrow>
          name \<notin> set PLAYBOOK_IGNORE_DIRS \<and> (\<exists>r. rel = name # r \<and> template_in sub r)
      | _ \<Rightarrow> False)
     \<or> template_in items rel"
proof
  assume "template_in (item # items) rel"
  then show "(case item of
        File name content \<Rightarrow> rel = [name] \<and> path_suffix name = S ''.ipynb''
      | Dir name sub \<Rightarrow>
          name \<notin> set PLAYBOOK_IGNORE_DIRS \<and> (\<exists>r. rel = name # r \<and> template_in sub r)
      | _ \<Rightarrow> False)
     \<or> template_in items rel"
  proof (cases rule: template_in.cases)
    case (template_here name content)
    then show ?thesis
      by (auto intro: template_in.template_here)
  next
    case (template_below name sub r)
    then show ?thesis
      by (auto intro: template_in.template_below)
  qed
next
  assume a: "(case item of
        File name content \<Rightarrow> rel = [name] \<and> path_suffix name = S ''.ipynb''
      | Dir name sub \<Rightarrow>
          name \<notin> set PLAYBOOK_IGNORE_DIRS \<and> (\<exists>r. rel = name # r \<and> template_in sub r)
      | _ \<Rightarrow> False)
     \<or> template_in items rel"
  then show "template_in (item # items) rel"
  proof
    assume "case item of
        File name content \<Rightarrow> rel = [name] \<and> path_suffix name = S ''.ipynb''
      | Dir name sub \<Rightarrow>
          name \<notin> set PLAYBOOK_IGNORE_DIRS \<and> (\<exists>r. rel = name # r \<and> template_in sub r)
      | _ \<Rightarrow> False"
    then show ?thesis
      by (cases item) (auto intro: template_in.intros)
  next
    assume "template_in items rel"
    then show ?thesis
      by (cases rule: template_in.cases) (auto intro: template_in.intros)
  qed
qed

lemma set_recursive_search:
  "set (recursive_search cur items acc) = set acc \<union> {cur @ rel |rel. template_in items rel}"
proof (induction cur items acc rule: recursive_search.induct)
  case (1 current_dir playbooks)
  then show ?case by (simp add: template_in_Nil)
next
  case (2 current_dir item items playbooks)
  show ?case
  proof (cases item)
    case (File name content)
    with 2(2) show ?thesis
      by (auto simp: template_in_Cons)
  next
    case (Dir name sub)
    show ?thesis
    proof (cases "name \<in> set PLAYBOOK_IGNORE_DIRS")
      case True
      with 2(2) Dir show ?thesis
        by (auto simp: template_in_Cons)
    next
      case False
      have inner: "set (recursive_search (current_dir @ [name]) sub playbooks) =
                   set playbooks \<union> {(current_dir @ [name]) @ r |r. template_in sub r}"
        using 2(1) [OF Dir False] .
      have outer: "set (recursive_search current_dir (item # items) playbooks) =
                   set (recursive_search (current_dir @ [name]) sub playbooks)
                   \<union> {current_dir @ rel |rel. template_in items rel}"
        using 2(2) Dir False by simp
      show ?thesis
        unfolding outer inner using Dir False
        by (auto simp: template_in_Cons)
    qed
  next
    case (Special name)
    with 2(2) show ?thesis
      by (auto simp: template_in_Cons)
  next
    case (Dangling name)
    with 2(2) show ?thesis
      by (auto simp: template_in_Cons)
  qed
qed

lemma recursive_search_empty_iff:
  "recursive_search root entries [] = [] \<longleftrightarrow> (\<forall>rel. \<not> template_in entries rel)"
proof -
  have "recursive_search root entries [] = [] \<longleftrightarrow> set (recursive_search root entries []) = {}"
    by simp
  also have "\<dots> \<longleftrightarrow> {root @ rel |rel. template_in entries rel} = {}"
    by (simp add: set_recursive_search)
  also have "\<dots> \<longleftrightarrow> (\<forall>rel. \<not> template_in entries rel)"
    by blast
  finally show ?thesis .
qed

text \<open>
  C9. With a level configured, discovery returns \<open>None\<close> exactly when the root is not an
  existing directory or the tree below it holds no template (no \<open>.ipynb\<close> file outside
  the ignored directories); in every other case it returns a non-empty list, whose
  members are exactly the templates of the tree. It never raises.
\<close>

theorem discovery_not_found_iff:
  assumes "CONFIGURED_LEVEL st = Some c"
  shows "(fst (get_list_of_notebooks root st) = Inr None \<longleftrightarrow>
            \<not> path_is_dir (fs st) root \<or>
            (\<exists>name entries. resolve (fs st) root = Some (Dir name entries)
                            \<and> (\<forall>rel. \<not> template_in entries rel)))
         \<and> (fst (get_list_of_notebooks root st) = Inr None \<or>
            (\<exists>playbooks name entries.
               playbooks \<noteq> [] \<and> fst (get_list_of_notebooks root st) = Inr (Some playbooks)
               \<and> resolve (fs st) root = Some (Dir name entries)
               \<and> set playbooks = {root @ rel |rel. template_in entries rel}))"
proof (cases "resolve (fs st) root")
  case None
  with get_list_result [OF assms, of root] show ?thesis
    by (simp add: path_is_dir_def)
next
  case (Some n)
  show ?thesis
  proof (cases n)
    case (Dir name entries)
    show ?thesis
    proof (cases "recursive_search root entries [] = []")
      case True
      with get_list_result [OF assms, of root] Some Dir recursive_search_empty_iff [of root entries]
      show ?thesis by (simp add: path_is_dir_def)
    next
      case False
      with get_list_result [OF assms, of root] Some Dir
      have r: "fst (get_list_of_notebooks root st) = Inr (Some (recursive_search root entries []))"
        by simp
      have s: "set (recursive_search root entries []) = {root @ rel |rel. template_in entries rel}"
        by (simp add: set_recursive_search)
      from False recursive_search_empty_iff [of root entries]
      have t: "\<not> (\<forall>rel. \<not> template_in entries rel)" by simp
      show ?thesis
        using r s t False Some Dir by (simp add: path_is_dir_def)
    qed
  next
    case (File name content)
    with get_list_result [OF assms, of root] Some show ?thesis
      by (simp add: path_is_dir_def)
  next
    case (Special name)
    with get_list_result [OF assms, of root] Some show ?thesis
      by (simp add: path_is_dir_def)
  next
    case (Dangling name)
    with get_list_result [OF assms, of root] Some show ?thesis
      by (simp add: path_is_dir_def)
  qed
qed

theorem discovery_not_found_iff_witness:
  "CONFIGURED_LEVEL (example_state (Some 4) False []) = Some 4
   \<and> path_is_dir (fs (example_state (Some 4) False [])) PLAYBOOKS_DIR
   \<and> fst (get_list_of_notebooks PLAYBOOKS_DIR (example_state (Some 4) False [])) =
       Inr (Some [[S ''Playbooks'', S ''a'', S ''x.ipynb'']])
   \<and> \<not> path_is_dir (fs (example_state (Some 4) False [])) [S ''Missing'']
   \<and> fst (get_list_of_notebooks [S ''Missing''] (example_state (Some 4) False [])) = Inr None
   \<and> resolve (fs (example_state (Some 4) False [])) INVESTIGATIONS_DIR =
       Some (Dir (S ''Investigations'') [])
   \<and> fst (get_list_of_notebooks INVESTIGATIONS_DIR (example_state (Some 4) False [])) = Inr None"
proof -
  let ?st = "example_state (Some 4) False []"
  have h: "CONFIGURED_LEVEL ?st = Some 4"
    by (simp add: example_state_def)
  have d: "path_is_dir (fs ?st) PLAYBOOKS_DIR"
    by (simp add: eval_defs cong: let_weak_cong seq_weak_cong)
  have n: "\<not> path_is_dir (fs ?st) [S ''Missing'']"
    by (simp add: eval_defs cong: let_weak_cong seq_weak_cong)
  have i: "resolve (fs ?st) INVESTIGATIONS_DIR = Some (Dir (S ''Investigations'') [])"
    by (simp add: eval_defs cong: let_weak_cong seq_weak_cong)
  from discovery_not_found_iff [OF h, of "[S ''Missing'']"] n
  have m: "fst (get_list_of_notebooks [S ''Missing''] ?st) = Inr None"
    by blast
  from discovery_not_found_iff [OF h, of INVESTIGATIONS_DIR] i template_in_Nil
  have e: "fst (get_list_of_notebooks INVESTIGATIONS_DIR ?st) = Inr None"
    by blast
  show ?thesis
    using h d n i m e example_discovery by simp
qed

section \<open>Directory naming and creation: results\<close>

lemma resolve_append:
  "resolve n (p @ q) = (case resolve n p of None \<Rightarrow> None | Some m \<Rightarrow> resolve m q)"
  by (induction p arbitrary: n) (auto split: node.splits option.splits)

lemma resolve_Dangling: "resolve (Dangling name) q = (if q = [] then Some (Dangling name) else None)"
  by (cases q) simp_all

lemma path_exists_prefix: "path_exists root (p @ q) \<Longrightarrow> path_exists root p"
  by (auto simp: path_exists_def resolve_append resolve_Dangling
      split: option.splits node.splits if_splits)

lemma MSG_log_frame [simp]:
  "fs (snd (MSG_log l f m st)) = fs st"
  "DRYRUN (snd (MSG_log l f m st)) = DRYRUN st"
  "CONFIGURED_LEVEL (snd (MSG_log l f m st)) = CONFIGURED_LEVEL st"
  "stdin (snd (MSG_log l f m st)) = stdin st"
  "now (snd (MSG_log l f m st)) = now st"
  by (simp_all add: MSG_log_def print_def Let_def split: option.splits)

lemma seq_log:
  "CONFIGURED_LEVEL st = Some c \<Longrightarrow> seq (MSG_log l f m st) k = k () (snd (MSG_log l f m st))"
  by (simp add: seq_def MSG_log_def Let_def)

text \<open>
  C1. The name check accepts a composed name that ends in a newline, since \<open>$\<close> also
  matches before a final newline: with the label \<open>abc\n\<close> the routine creates the
  directory and returns its path although the newline is not an allow-listed character,
  and with a label of 56 letters and a newline the name it accepts has 76 characters.
\<close>

theorem trailing_newline_name_is_accepted:
  "fst (create_directory INVESTIGATIONS_DIR None (Some (S ''abc'' @ [10]))
          (example_state (Some 4) False [])) =
     Inr (Some [S ''Investigations'', S ''2024-01-02T03.04 - abc'' @ [10]])
   \<and> path_is_dir (fs (snd (create_directory INVESTIGATIONS_DIR None (Some (S ''abc'' @ [10]))
          (example_state (Some 4) False []))))
        [S ''Investigations'', S ''2024-01-02T03.04 - abc'' @ [10]]
   \<and> \<not> allowed_char 10
   \<and> fst (create_directory INVESTIGATIONS_DIR None
            (Some (S ''aaaaaaaaaaaaaaaaaaaaaaaaaaaaaaaaaaaaaaaaaaaaaaaaaaaaaaaa'' @ [10]))
          (example_state (Some 4) False [])) =
     Inr (Some [S ''Investigations'',
                S ''2024-01-02T03.04 - aaaaaaaaaaaaaaaaaaaaaaaaaaaaaaaaaaaaaaaaaaaaaaaaaaaaaaaa''
                @ [10]])
   \<and> length (S ''2024-01-02T03.04 - aaaaaaaaaaaaaaaaaaaaaaaaaaaaaaaaaaaaaaaaaaaaaaaaaaaaaaaa''
               @ [10]) = 76"
  by (simp add: eval_defs cong: let_weak_cong seq_weak_cong)

text \<open>
  C4. If the composed name already exists under the base directory, the routine returns
  \<open>None\<close>, its last action is a \<open>log\<close> call at level ERROR (that the directory already
  exists or, for a name that fails the name check, that the name is invalid), and the
  file system is unchanged.
\<close>

theorem existing_directory_is_not_recreated:
  assumes "CONFIGURED_LEVEL st = Some c"
      and "path_exists (fs st) (base @ [new_dir_name (strftime (now st)) case_id label])"
  shows "create_directory base case_id label st =
           (Inr None,
            snd (MSG_log ERROR (S ''create_directory'')
                   (if match_allowed 75 (new_dir_name (strftime (now st)) case_id label)
                    then S ''Directory ''
                         @ quoted (join_path (base @ [new_dir_name (strftime (now st)) case_id label]))
                         @ S '' already exists.''
                    else S ''Invalid directory name: ''
                         @ quoted (new_dir_name (strftime (now st)) case_id label) @ S ''.'')
                   (snd (MSG_log INFO (S ''create_directory'')
                           (S ''New directory name: ''
                            @ quoted (new_dir_name (strftime (now st)) case_id label)) st))))
         \<and> fs (snd (create_directory base case_id label st)) = fs st"
proof -
  have b: "path_exists (fs st) base"
    using assms(2) by (rule path_exists_prefix)
  have "create_directory base case_id label st =
           (Inr None,
            snd (MSG_log ERROR (S ''create_directory'')
                   (if match_allowed 75 (new_dir_name (strftime (now st)) case_id label)
                    then S ''Directory ''
                         @ quoted (join_path (base @ [new_dir_name (strftime (now st)) case_id label]))
                         @ S '' already exists.''
                    else S ''Invalid directory name: ''
                         @ quoted (new_dir_name (strftime (now st)) case_id label) @ S ''.'')
                   (snd (MSG_log INFO (S ''create_directory'')
                           (S ''New directory name: ''
                            @ quoted (new_dir_name (strftime (now st)) case_id label)) st))))"
    using assms b
    by (simp add: create_directory_def Let_def seq_log [where c = c])
  then show ?thesis by simp
qed

theorem existing_directory_is_not_recreated_witness:
  "CONFIGURED_LEVEL ((example_state (Some 4) False [])\<lparr>fs := collision_fs\<rparr>) = Some 4
   \<and> path_exists collision_fs [S ''Investigations'', S ''2024-01-02T03.04 #42 - a'']
   \<and> fst (create_directory INVESTIGATIONS_DIR (Some (S ''#42'')) (Some (S ''a''))
             ((example_state (Some 4) False [])\<lparr>fs := collision_fs\<rparr>)) = Inr None
   \<and> fs (snd (create_directory INVESTIGATIONS_DIR (Some (S ''#42'')) (Some (S ''a''))
             ((example_state (Some 4) False [])\<lparr>fs := collision_fs\<rparr>))) = collision_fs"
proof -
  let ?st = "(example_state (Some 4) False [])\<lparr>fs := collision_fs\<rparr>"
  have h: "CONFIGURED_LEVEL ?st = Some 4"
    by (simp add: example_state_def)
  have e: "path_exists collision_fs [S ''Investigations'', S ''2024-01-02T03.04 #42 - a'']"
    by (simp add: eval_defs cong: let_weak_cong seq_weak_cong)
  have e': "path_exists (fs ?st)
              (INVESTIGATIONS_DIR
               @ [new_dir_name (strftime (now ?st)) (Some (S ''#42'')) (Some (S ''a''))])"
    by (simp add: eval_defs cong: let_weak_cong seq_weak_cong)
  have f: "fs ?st = collision_fs"
    by (simp add: example_state_def)
  show ?thesis
    using existing_directory_is_not_recreated [OF h e'] h e f
    by simp
qed

text \<open>
  C5, as the code has it. In dry-run mode, with an existing base directory, a valid
  composed name and no collision, \<open>create_directory\<close> changes nothing but standard
  output: it logs the name at level INFO and the line \<open>DRYRUN: Would have created
  directory ...\<close> at level DEBUG, so that line is printed only when the configured level
  is DEBUG, and it returns \<open>None\<close>, the value it also returns on failure. \<open>main\<close> then
  logs \<open>Failed to create directory for the new investigation.\<close> at level ERROR and
  returns RETURN_ERROR; no file is copied and the file system is unchanged.
\<close>

theorem dry_run_creates_nothing_and_fails:
  assumes "DRYRUN st" and "CONFIGURED_LEVEL st = Some c"
      and "path_exists (fs st) INVESTIGATIONS_DIR"
      and "match_allowed 75 (new_dir_name (strftime (now st)) case_id (Some folder))"
      and "\<not> path_exists (fs st)
             (INVESTIGATIONS_DIR @ [new_dir_name (strftime (now st)) case_id (Some folder)])"
  shows "create_directory INVESTIGATIONS_DIR case_id (Some folder) st =
           (Inr None,
            st\<lparr>stdout := stdout st
                 @ (if INFO \<le> c
                    then [S ''[INFO::create_directory] New directory name: ''
                          @ quoted (new_dir_name (strftime (now st)) case_id (Some folder))]
                    else [])
                 @ (if DEBUG \<le> c
                    then [S ''[DEBUG::create_directory] DRYRUN: Would have created directory ''
                          @ quoted (join_path (INVESTIGATIONS_DIR
                               @ [new_dir_name (strftime (now st)) case_id (Some folder)]))
                          @ S ''.'']
                    else [])\<rparr>)
         \<and> main_create notebook folder case_id st =
             (Inr (Some RETURN_ERROR),
              snd (MSG_log ERROR (S ''main'')
                     (S ''Failed to create directory for the new investigation.'')
                     (snd (create_directory INVESTIGATIONS_DIR case_id (Some folder) st))))
         \<and> fs (snd (main_create notebook folder case_id st)) = fs st"
proof -
  have n: "fmt_opt (MSG_getName INFO) = S ''INFO''" "fmt_opt (MSG_getName DEBUG) = S ''DEBUG''"
    by (simp_all add: MSG_getName_def level_to_name_lookup_def level_defs fmt_opt_def)
  have cd: "create_directory INVESTIGATIONS_DIR case_id (Some folder) st =
           (Inr None,
            st\<lparr>stdout := stdout st
                 @ (if INFO \<le> c
                    then [S ''[INFO::create_directory] New directory name: ''
                          @ quoted (new_dir_name (strftime (now st)) case_id (Some folder))]
                    else [])
                 @ (if DEBUG \<le> c
                    then [S ''[DEBUG::create_directory] DRYRUN: Would have created directory ''
                          @ quoted (join_path (INVESTIGATIONS_DIR
                               @ [new_dir_name (strftime (now st)) case_id (Some folder)]))
                          @ S ''.'']
                    else [])\<rparr>)"
    using assms
    by (simp add: create_directory_def Let_def seq_def MSG_log_set [where c = c] n)
  have mc: "main_create notebook folder case_id st =
             (Inr (Some RETURN_ERROR),
              snd (MSG_log ERROR (S ''main'')
                     (S ''Failed to create directory for the new investigation.'')
                     (snd (create_directory INVESTIGATIONS_DIR case_id (Some folder) st))))"
    unfolding main_create_def cd using assms(2)
    by (simp add: seq_def MSG_log_set [where c = c])
  show ?thesis
    using cd mc by simp
qed

theorem dry_run_creates_nothing_and_fails_witness:
  "DRYRUN (example_state (Some 4) True [])
   \<and> CONFIGURED_LEVEL (example_state (Some 4) True []) = Some 4
   \<and> path_exists (fs (example_state (Some 4) True [])) INVESTIGATIONS_DIR
   \<and> fst (create_directory INVESTIGATIONS_DIR (Some (S ''#42'')) (Some (S ''a''))
            (example_state (Some 4) True [])) = Inr None
   \<and> fst (main_create [S ''Playbooks'', S ''a'', S ''x.ipynb''] (S ''a'') (Some (S ''#42''))
            (example_state (Some 4) True [])) = Inr (Some RETURN_ERROR)
   \<and> fs (snd (main_create [S ''Playbooks'', S ''a'', S ''x.ipynb''] (S ''a'') (Some (S ''#42''))
            (example_state (Some 4) True []))) = example_fs"
proof -
  let ?st = "example_state (Some 4) True []"
  have h1: "DRYRUN ?st" and h2: "CONFIGURED_LEVEL ?st = Some 4" and f: "fs ?st = example_fs"
    by (simp_all add: example_state_def)
  have h3: "path_exists (fs ?st) INVESTIGATIONS_DIR"
    by (simp add: eval_defs cong: let_weak_cong seq_weak_cong)
  have h4: "match_allowed 75 (new_dir_name (strftime (now ?st)) (Some (S ''#42'')) (Some (S ''a'')))"
    by (simp add: eval_defs cong: let_weak_cong seq_weak_cong)
  have h5: "\<not> path_exists (fs ?st)
              (INVESTIGATIONS_DIR
               @ [new_dir_name (strftime (now ?st)) (Some (S ''#42'')) (Some (S ''a''))])"
    by (simp add: eval_defs cong: let_weak_cong seq_weak_cong)
  show ?thesis
    using dry_run_creates_nothing_and_fails [OF h1 h2 h3 h4 h5, of "[S ''Playbooks'', S ''a'', S ''x.ipynb'']"]
      h1 h2 h3 f
    by simp
qed

text \<open>
  C5, as the claim states it, fails on the example: at level WARNING the dry run prints
  nothing and returns \<open>None\<close>, which is also the result when the base directory is
  missing; \<open>main\<close> returns RETURN_ERROR and the script exits with status 1, where the
  same run without \<open>--dryrun\<close> exits with status 0.
\<close>

theorem dry_run_returns_failure_result:
  "create_directory INVESTIGATIONS_DIR (Some (S ''#42'')) (Some (S ''a''))
     (example_state (Some 4) True []) = (Inr None, example_state (Some 4) True [])
   \<and> fst (create_directory [S ''Missing''] (Some (S ''#42'')) (Some (S ''a''))
            (example_state (Some 4) True [])) = Inr None
   \<and> fst (main (example_state (Some 4) True [S ''1'', S ''42''])) = Inr (Some RETURN_ERROR)
   \<and> fst (script (example_args True) (example_state None False [S ''1'', S ''42''])) = Inr 1
   \<and> fst (script (example_args False) (example_state None False [S ''1'', S ''42''])) = Inr 0"
  by (simp add: eval_defs cong: let_weak_cong seq_weak_cong)

section \<open>The case-reference loop: results\<close>









lemma rejected_stdin [simp]: "stdin (rejected st) = stdin st"
  by (simp add: rejected_def)













end
